theory Spec2Isabelle
  imports Complex_Main
begin

section \<open>JavaScript numbers\<close>

text \<open>
  A JavaScript \<open>number\<close> is a finite value, a negative zero, an infinity or NaN.
  A finite double is represented by its exact real value (\<open>Fin 0\<close> is \<open>+0\<close>), and the
  arithmetic below is the exact one on finite values: the rounding of a result or of a
  decimal literal to the nearest double and the overflow of a finite result are not
  part of this model. The special values follow IEEE 754 as ECMAScript prescribes.
\<close>

datatype number = Fin real | NegZero | PosInf | NegInf | NaN

fun num_val :: "number \<Rightarrow> real" where
  "num_val (Fin x) = x"
| "num_val _ = 0"

fun isNegative :: "number \<Rightarrow> bool" where
  "isNegative (Fin x) = (x < 0)"
| "isNegative NegZero = True"
| "isNegative NegInf = True"
| "isNegative _ = False"

fun isZero :: "number \<Rightarrow> bool" where
  "isZero (Fin x) = (x = 0)"
| "isZero NegZero = True"
| "isZero _ = False"

fun isInfinite :: "number \<Rightarrow> bool" where
  "isInfinite PosInf = True"
| "isInfinite NegInf = True"
| "isInfinite _ = False"

fun isNaN :: "number \<Rightarrow> bool" where
  "isNaN NaN = True"
| "isNaN _ = False"

fun isFinite :: "number \<Rightarrow> bool" where
  "isFinite (Fin x) = True"
| "isFinite NegZero = True"
| "isFinite _ = False"

definition signedZero :: "bool \<Rightarrow> number" where
  "signedZero neg = (if neg then NegZero else Fin 0)"

definition signedInf :: "bool \<Rightarrow> number" where
  "signedInf neg = (if neg then NegInf else PosInf)"

fun num_neg :: "number \<Rightarrow> number" where
  "num_neg (Fin x) = (if x = 0 then NegZero else Fin (- x))"
| "num_neg NegZero = Fin 0"
| "num_neg PosInf = NegInf"
| "num_neg NegInf = PosInf"
| "num_neg NaN = NaN"

fun num_add :: "number \<Rightarrow> number \<Rightarrow> number" where
  "num_add NaN _ = NaN"
| "num_add _ NaN = NaN"
| "num_add PosInf NegInf = NaN"
| "num_add NegInf PosInf = NaN"
| "num_add PosInf _ = PosInf"
| "num_add _ PosInf = PosInf"
| "num_add NegInf _ = NegInf"
| "num_add _ NegInf = NegInf"
| "num_add NegZero NegZero = NegZero"
| "num_add NegZero (Fin y) = Fin y"
| "num_add (Fin x) NegZero = Fin x"
| "num_add (Fin x) (Fin y) = Fin (x + y)"

definition num_sub :: "number \<Rightarrow> number \<Rightarrow> number" where
  "num_sub a b = num_add a (num_neg b)"

definition num_mul :: "number \<Rightarrow> number \<Rightarrow> number" where
  "num_mul a b =
     (if isNaN a \<or> isNaN b then NaN
      else if (isInfinite a \<and> isZero b) \<or> (isZero a \<and> isInfinite b) then NaN
      else if isInfinite a \<or> isInfinite b then signedInf (isNegative a \<noteq> isNegative b)
      else if isZero a \<or> isZero b then signedZero (isNegative a \<noteq> isNegative b)
      else Fin (num_val a * num_val b))"

definition num_div :: "number \<Rightarrow> number \<Rightarrow> number" where
  "num_div a b =
     (if isNaN a \<or> isNaN b then NaN
      else if (isInfinite a \<and> isInfinite b) \<or> (isZero a \<and> isZero b) then NaN
      else if isInfinite a \<or> isZero b then signedInf (isNegative a \<noteq> isNegative b)
      else if isInfinite b \<or> isZero a then signedZero (isNegative a \<noteq> isNegative b)
      else Fin (num_val a / num_val b))"

text \<open>The comparisons \<open><\<close> and \<open>===\<close>: false on NaN, and the two zeros are equal.\<close>

fun num_lt :: "number \<Rightarrow> number \<Rightarrow> bool" where
  "num_lt NaN _ = False"
| "num_lt _ NaN = False"
| "num_lt PosInf _ = False"
| "num_lt _ PosInf = True"
| "num_lt _ NegInf = False"
| "num_lt NegInf _ = True"
| "num_lt a b = (num_val a < num_val b)"

fun num_eq :: "number \<Rightarrow> number \<Rightarrow> bool" where
  "num_eq NaN _ = False"
| "num_eq _ NaN = False"
| "num_eq PosInf b = (b = PosInf)"
| "num_eq a PosInf = False"
| "num_eq NegInf b = (b = NegInf)"
| "num_eq a NegInf = False"
| "num_eq a b = (num_val a = num_val b)"

definition num_le :: "number \<Rightarrow> number \<Rightarrow> bool" where
  "num_le a b = (num_lt a b \<or> num_eq a b)"

definition num_ge :: "number \<Rightarrow> number \<Rightarrow> bool" where
  "num_ge a b = num_le b a"

text \<open>\<open>Math.abs\<close>, \<open>Math.round\<close> (ties go up, and an argument in \<open>[-0.5, 0)\<close> gives
  \<open>-0\<close>), \<open>Math.floor\<close> and \<open>Math.max\<close> of two numbers.\<close>

fun Math_abs :: "number \<Rightarrow> number" where
  "Math_abs (Fin x) = Fin \<bar>x\<bar>"
| "Math_abs NegZero = Fin 0"
| "Math_abs PosInf = PosInf"
| "Math_abs NegInf = PosInf"
| "Math_abs NaN = NaN"

fun Math_round :: "number \<Rightarrow> number" where
  "Math_round (Fin x) =
     (if - (1 / 2) \<le> x \<and> x < 0 then NegZero else Fin (of_int \<lfloor>x + 1 / 2\<rfloor>))"
| "Math_round n = n"

fun Math_floor :: "number \<Rightarrow> number" where
  "Math_floor (Fin x) = Fin (of_int \<lfloor>x\<rfloor>)"
| "Math_floor n = n"

definition Math_max :: "number \<Rightarrow> number \<Rightarrow> number" where
  "Math_max a b =
     (if isNaN a \<or> isNaN b then NaN
      else if num_lt a b then b
      else if num_lt b a then a
      else if isNegative a then b else a)"

section \<open>Strings and number formatting of the runtime\<close>

text \<open>Strings are byte lists; a character outside ASCII is written as its UTF-8 bytes.\<close>

definition degreeSign :: string where
  "degreeSign = [CHR 0xC2, CHR 0xB0]"

definition infinitySign :: string where
  "infinitySign = [CHR 0xE2, CHR 0x88, CHR 0x9E]"

definition digitChar :: "nat \<Rightarrow> char" where
  "digitChar d = ''0123456789'' ! (d mod 10)"

fun digits10 :: "nat \<Rightarrow> string" where
  "digits10 n = (if n < 10 then [digitChar n] else digits10 (n div 10) @ [digitChar (n mod 10)])"

declare digits10.simps [simp del]

definition padStart :: "nat \<Rightarrow> char \<Rightarrow> string \<Rightarrow> string" where
  "padStart n c s = replicate (n - length s) c @ s"

text \<open>Grouping of an integer's digits: a comma before every block of three digits
  counted from the right (locale \<open>en-US\<close>).\<close>

fun group3 :: "string \<Rightarrow> string" where
  "group3 ds =
     (if length ds \<le> 3 then ds
      else group3 (take (length ds - 3) ds) @ '','' @ drop (length ds - 3) ds)"

declare group3.simps [simp del]

text \<open>Trailing zeros of the fraction are dropped as long as more than \<open>minFD\<close> digits
  remain.\<close>

definition stripZeros :: "nat \<Rightarrow> string \<Rightarrow> string" where
  "stripZeros minFD ds =
     (let zeros = length (takeWhile (\<lambda>c. c = CHR ''0'') (rev ds))
      in take (length ds - min zeros (length ds - minFD)) ds)"

text \<open>
  \<open>Number.prototype.toLocaleString('en-US', {minimumFractionDigits: minFD,
  maximumFractionDigits: maxFD})\<close> after ECMA-402: the magnitude is rounded to \<open>maxFD\<close>
  fraction digits, ties away from zero; the integer part is grouped; the sign is the
  sign of the number itself, also when the rounded magnitude is zero. With no options
  the fraction digits are 0 to 3.
\<close>

definition formatMagnitude :: "nat \<Rightarrow> nat \<Rightarrow> real \<Rightarrow> string" where
  "formatMagnitude minFD maxFD x =
     (let scaled = nat \<lfloor>x * 10 ^ maxFD + 1 / 2\<rfloor>;
          fraction = stripZeros minFD (padStart maxFD (CHR ''0'') (digits10 (scaled mod 10 ^ maxFD)))
      in group3 (digits10 (scaled div 10 ^ maxFD)) @
         (if maxFD = 0 \<or> fraction = [] then [] else ''.'' @ fraction))"

fun toLocaleStringFD :: "nat \<Rightarrow> nat \<Rightarrow> number \<Rightarrow> string" where
  "toLocaleStringFD minFD maxFD NaN = ''NaN''"
| "toLocaleStringFD minFD maxFD PosInf = infinitySign"
| "toLocaleStringFD minFD maxFD NegInf = ''-'' @ infinitySign"
| "toLocaleStringFD minFD maxFD n =
     (if isNegative n then ''-'' else []) @ formatMagnitude minFD maxFD \<bar>num_val n\<bar>"

definition toLocaleString :: "number \<Rightarrow> string" where
  "toLocaleString n = toLocaleStringFD 0 3 n"

section \<open>Objects used as tables\<close>

text \<open>
  A unit table is an object literal: its own properties in the order they are written
  (\<open>Object.values\<close> lists them in that order, no key being an array index), and behind
  them the properties every object inherits from \<open>Object.prototype\<close>. Reading
  \<open>table[key]\<close> gives the own property, else the inherited one, else \<open>undefined\<close>.
  The inherited values are functions (an object for \<open>__proto__\<close>): they are truthy
  and have no property \<open>toBase\<close>.
\<close>

datatype 'a property = Own 'a | Inherited | Undefined

definition objectPrototypeKeys :: "string list" where
  "objectPrototypeKeys =
     [''constructor'', ''__defineGetter__'', ''__defineSetter__'', ''hasOwnProperty'',
      ''__lookupGetter__'', ''__lookupSetter__'', ''isPrototypeOf'',
      ''propertyIsEnumerable'', ''toString'', ''valueOf'', ''__proto__'',
      ''toLocaleString'']"

definition getProperty :: "(string \<times> 'a) list \<Rightarrow> string \<Rightarrow> 'a property" where
  "getProperty obj key =
     (case map_of obj key of
        Some v \<Rightarrow> Own v
      | None \<Rightarrow> if key \<in> set objectPrototypeKeys then Inherited else Undefined)"

definition Object_values :: "(string \<times> 'a) list \<Rightarrow> 'a list" where
  "Object_values obj = map snd obj"

text \<open>What a \<open>throw\<close> or a failing runtime operation raises, with its message.\<close>

datatype error = Error string | TypeError string | RangeError string

section \<open>Unit tables (length.ts, volume.ts, weight.ts, temperature.ts)\<close>

record TemperatureUnit =
  id' :: string
  name :: string
  symbol :: string

record LengthUnit = TemperatureUnit +
  toBase :: "number \<Rightarrow> number"
  fromBase :: "number \<Rightarrow> number"

type_synonym VolumeUnit = LengthUnit
type_synonym WeightUnit = LengthUnit

definition mkUnit ::
  "string \<Rightarrow> string \<Rightarrow> string \<Rightarrow> (number \<Rightarrow> number) \<Rightarrow> (number \<Rightarrow> number) \<Rightarrow> LengthUnit" where
  "mkUnit i n s t f = \<lparr>id' = i, name = n, symbol = s, toBase = t, fromBase = f\<rparr>"

definition lengthUnits :: "(string \<times> LengthUnit) list" where
  "lengthUnits =
     [(''kilometer'', mkUnit ''kilometer'' ''Kilometers'' ''km''
         (\<lambda>v. num_mul v (Fin 1000)) (\<lambda>v. num_div v (Fin 1000))),
      (''mile'', mkUnit ''mile'' ''Miles'' ''mi''
         (\<lambda>v. num_mul v (Fin 1609.344)) (\<lambda>v. num_div v (Fin 1609.344))),
      (''inch'', mkUnit ''inch'' ''Inches'' ''in''
         (\<lambda>v. num_mul v (Fin 0.0254)) (\<lambda>v. num_div v (Fin 0.0254))),
      (''foot'', mkUnit ''foot'' ''Feet'' ''ft''
         (\<lambda>v. num_mul v (Fin 0.3048)) (\<lambda>v. num_div v (Fin 0.3048))),
      (''yard'', mkUnit ''yard'' ''Yards'' ''yd''
         (\<lambda>v. num_mul v (Fin 0.9144)) (\<lambda>v. num_div v (Fin 0.9144))),
      (''millimeter'', mkUnit ''millimeter'' ''Millimeters'' ''mm''
         (\<lambda>v. num_div v (Fin 1000)) (\<lambda>v. num_mul v (Fin 1000))),
      (''centimeter'', mkUnit ''centimeter'' ''Centimeters'' ''cm''
         (\<lambda>v. num_div v (Fin 100)) (\<lambda>v. num_mul v (Fin 100))),
      (''meter'', mkUnit ''meter'' ''Meters'' ''m'' (\<lambda>v. v) (\<lambda>v. v))]"

definition volumeUnits :: "(string \<times> VolumeUnit) list" where
  "volumeUnits =
     [(''milliliter'', mkUnit ''milliliter'' ''Milliliters'' ''mL''
         (\<lambda>v. num_div v (Fin 1000)) (\<lambda>v. num_mul v (Fin 1000))),
      (''liter'', mkUnit ''liter'' ''Liters'' ''L'' (\<lambda>v. v) (\<lambda>v. v)),
      (''fluidOunce'', mkUnit ''fluidOunce'' ''Fluid Ounces'' ''fl oz''
         (\<lambda>v. num_mul v (Fin 0.0295735)) (\<lambda>v. num_div v (Fin 0.0295735))),
      (''cup'', mkUnit ''cup'' ''Cups'' ''cup''
         (\<lambda>v. num_mul v (Fin 0.236588)) (\<lambda>v. num_div v (Fin 0.236588))),
      (''pint'', mkUnit ''pint'' ''Pints'' ''pt''
         (\<lambda>v. num_mul v (Fin 0.473176)) (\<lambda>v. num_div v (Fin 0.473176))),
      (''quart'', mkUnit ''quart'' ''Quarts'' ''qt''
         (\<lambda>v. num_mul v (Fin 0.946353)) (\<lambda>v. num_div v (Fin 0.946353))),
      (''gallon'', mkUnit ''gallon'' ''Gallons'' ''gal''
         (\<lambda>v. num_mul v (Fin 3.78541)) (\<lambda>v. num_div v (Fin 3.78541)))]"

definition weightUnits :: "(string \<times> WeightUnit) list" where
  "weightUnits =
     [(''gram'', mkUnit ''gram'' ''Grams'' ''g''
         (\<lambda>v. num_div v (Fin 1000)) (\<lambda>v. num_mul v (Fin 1000))),
      (''kilogram'', mkUnit ''kilogram'' ''Kilograms'' ''kg'' (\<lambda>v. v) (\<lambda>v. v)),
      (''metricTon'', mkUnit ''metricTon'' ''Metric Tons'' ''t''
         (\<lambda>v. num_mul v (Fin 1000)) (\<lambda>v. num_div v (Fin 1000))),
      (''ounce'', mkUnit ''ounce'' ''Ounces'' ''oz''
         (\<lambda>v. num_mul v (Fin 0.0283495)) (\<lambda>v. num_div v (Fin 0.0283495))),
      (''pound'', mkUnit ''pound'' ''Pounds'' ''lb''
         (\<lambda>v. num_mul v (Fin 0.453592)) (\<lambda>v. num_div v (Fin 0.453592))),
      (''usTon'', mkUnit ''usTon'' ''US Tons'' ''ton''
         (\<lambda>v. num_mul v (Fin 907.185)) (\<lambda>v. num_div v (Fin 907.185))),
      (''stone'', mkUnit ''stone'' ''Stone'' ''st''
         (\<lambda>v. num_mul v (Fin 6.35029)) (\<lambda>v. num_div v (Fin 6.35029)))]"

definition temperatureUnits :: "(string \<times> TemperatureUnit) list" where
  "temperatureUnits =
     [(''celsius'', \<lparr>id' = ''celsius'', name = ''Celsius'', symbol = degreeSign @ ''C''\<rparr>),
      (''fahrenheit'',
         \<lparr>id' = ''fahrenheit'', name = ''Fahrenheit'', symbol = degreeSign @ ''F''\<rparr>),
      (''kelvin'', \<lparr>id' = ''kelvin'', name = ''Kelvin'', symbol = ''K''\<rparr>)]"

section \<open>The formatter and the conversion results (conversion-utils.ts)\<close>

text \<open>
  The field \<open>symbol\<close> of a result is \<open>resultSymbol\<close> here, the name being taken by the
  units. In \<open>formatNumber\<close> the difference \<open>num - Math.round(num)\<close> of a double is exact,
  and the literal \<open>0.0001\<close> is the double next above 1/10000 with no double between the
  two, so the test on a double is the test against 1/10000 on its exact value.
\<close>

record ConversionResult =
  unitId :: string
  unitName :: string
  resultSymbol :: string
  "value" :: string

definition formatNumber :: "number \<Rightarrow> string" where
  "formatNumber num =
     (let isWholeNumber = num_lt (Math_abs (num_sub num (Math_round num))) (Fin (1 / 10000))
      in if isWholeNumber then toLocaleString (Math_round num)
         else toLocaleStringFD 2 2 num)"

section \<open>The linear conversion engines\<close>

text \<open>
  \<open>convertLength\<close>, \<open>convertVolume\<close> and \<open>convertWeight\<close> are the same function over
  their own table. The guard \<open>if (!fromUnit)\<close> catches \<open>undefined\<close> only; with an
  inherited property the call \<open>fromUnit.toBase(value)\<close> is a call of \<open>undefined\<close>.
\<close>

definition toResult :: "number \<Rightarrow> LengthUnit \<Rightarrow> ConversionResult" where
  "toResult baseValue unit' =
     \<lparr>unitId = id' unit', unitName = name unit', resultSymbol = symbol unit',
      value = formatNumber (fromBase unit' baseValue)\<rparr>"

definition convertLength :: "number \<Rightarrow> string \<Rightarrow> error + ConversionResult list" where
  "convertLength value' fromUnitId =
     (case getProperty lengthUnits fromUnitId of
        Undefined \<Rightarrow> Inl (Error (''Invalid unit ID: '' @ fromUnitId))
      | Inherited \<Rightarrow> Inl (TypeError ''fromUnit.toBase is not a function'')
      | Own fromUnit \<Rightarrow>
          (let baseValue = toBase fromUnit value'
           in Inr (map (toResult baseValue)
                    (filter (\<lambda>unit'. id' unit' \<noteq> fromUnitId) (Object_values lengthUnits)))))"

definition convertVolume :: "number \<Rightarrow> string \<Rightarrow> error + ConversionResult list" where
  "convertVolume value' fromUnitId =
     (case getProperty volumeUnits fromUnitId of
        Undefined \<Rightarrow> Inl (Error (''Invalid unit ID: '' @ fromUnitId))
      | Inherited \<Rightarrow> Inl (TypeError ''fromUnit.toBase is not a function'')
      | Own fromUnit \<Rightarrow>
          (let baseValue = toBase fromUnit value'
           in Inr (map (toResult baseValue)
                    (filter (\<lambda>unit'. id' unit' \<noteq> fromUnitId) (Object_values volumeUnits)))))"

definition convertWeight :: "number \<Rightarrow> string \<Rightarrow> error + ConversionResult list" where
  "convertWeight value' fromUnitId =
     (case getProperty weightUnits fromUnitId of
        Undefined \<Rightarrow> Inl (Error (''Invalid unit ID: '' @ fromUnitId))
      | Inherited \<Rightarrow> Inl (TypeError ''fromUnit.toBase is not a function'')
      | Own fromUnit \<Rightarrow>
          (let baseValue = toBase fromUnit value'
           in Inr (map (toResult baseValue)
                    (filter (\<lambda>unit'. id' unit' \<noteq> fromUnitId) (Object_values weightUnits)))))"

section \<open>The temperature engine (temperature.ts)\<close>

definition celsiusToFahrenheit :: "number \<Rightarrow> number" where
  "celsiusToFahrenheit celsius = num_add (num_div (num_mul celsius (Fin 9)) (Fin 5)) (Fin 32)"

definition celsiusToKelvin :: "number \<Rightarrow> number" where
  "celsiusToKelvin celsius = num_add celsius (Fin 273.15)"

definition fahrenheitToCelsius :: "number \<Rightarrow> number" where
  "fahrenheitToCelsius fahrenheit =
     num_div (num_mul (num_sub fahrenheit (Fin 32)) (Fin 5)) (Fin 9)"

definition fahrenheitToKelvin :: "number \<Rightarrow> number" where
  "fahrenheitToKelvin fahrenheit =
     num_add (num_div (num_mul (num_sub fahrenheit (Fin 32)) (Fin 5)) (Fin 9)) (Fin 273.15)"

definition kelvinToCelsius :: "number \<Rightarrow> number" where
  "kelvinToCelsius kelvin = num_sub kelvin (Fin 273.15)"

definition kelvinToFahrenheit :: "number \<Rightarrow> number" where
  "kelvinToFahrenheit kelvin =
     num_add (num_div (num_mul (num_sub kelvin (Fin 273.15)) (Fin 9)) (Fin 5)) (Fin 32)"

definition pushResult :: "string \<Rightarrow> string \<Rightarrow> string \<Rightarrow> number \<Rightarrow> ConversionResult" where
  "pushResult i n s x = \<lparr>unitId = i, unitName = n, resultSymbol = s, value = formatNumber x\<rparr>"

definition convertTemperature :: "number \<Rightarrow> string \<Rightarrow> error + ConversionResult list" where
  "convertTemperature value' fromUnitId =
     (case getProperty temperatureUnits fromUnitId of
        Undefined \<Rightarrow> Inl (Error (''Invalid unit ID: '' @ fromUnitId))
      | _ \<Rightarrow>
          if fromUnitId = ''celsius'' then
            Inr [pushResult ''fahrenheit'' ''Fahrenheit'' (degreeSign @ ''F'')
                   (celsiusToFahrenheit value'),
                 pushResult ''kelvin'' ''Kelvin'' ''K'' (celsiusToKelvin value')]
          else if fromUnitId = ''fahrenheit'' then
            Inr [pushResult ''celsius'' ''Celsius'' (degreeSign @ ''C'')
                   (fahrenheitToCelsius value'),
                 pushResult ''kelvin'' ''Kelvin'' ''K'' (fahrenheitToKelvin value')]
          else if fromUnitId = ''kelvin'' then
            Inr [pushResult ''celsius'' ''Celsius'' (degreeSign @ ''C'')
                   (kelvinToCelsius value'),
                 pushResult ''fahrenheit'' ''Fahrenheit'' (degreeSign @ ''F'')
                   (kelvinToFahrenheit value')]
          else Inl (Error (''Unsupported temperature unit: '' @ fromUnitId)))"

section \<open>The runtime behind the time engine\<close>

text \<open>
  A \<open>Date\<close> holds a time value: an integral number of milliseconds since the epoch, or
  NaN (an invalid date, \<open>None\<close> here). What the engine takes from the runtime and its
  time zone database is a parameter: the parser of date strings, the local calendar
  fields of an instant, its offset and zone name, the instant of a local calendar date,
  the ISO string of a valid instant, the numeric value of a numeric literal, \<open>parseFloat\<close>
  and the clock.
\<close>

type_synonym Date = "int option"

record runtime =
  parseDate :: "string \<Rightarrow> Date"
  localYear :: "int \<Rightarrow> int"
  localMonth :: "int \<Rightarrow> int"
  localDay :: "int \<Rightarrow> int"
  localHours :: "int \<Rightarrow> int"
  localMinutes :: "int \<Rightarrow> int"
  localSeconds :: "int \<Rightarrow> int"
  timezoneOffset :: "int \<Rightarrow> int"
  timeZoneName :: "int \<Rightarrow> string option"
  makeLocalDate :: "int \<Rightarrow> int \<Rightarrow> int \<Rightarrow> Date"
  withLocalDay :: "int \<Rightarrow> number \<Rightarrow> Date"
  isoString :: "int \<Rightarrow> string"
  strNumericLiteral :: "string \<Rightarrow> number"
  parseFloat :: "string \<Rightarrow> number"
  clock :: int

text \<open>\<open>new Date(value)\<close> clips the number: a value that is not finite or beyond
  8.64e15 in magnitude gives an invalid date, any other is truncated towards zero.\<close>

definition newDate :: "number \<Rightarrow> Date" where
  "newDate n =
     (case n of
        Fin x \<Rightarrow> if \<bar>x\<bar> \<le> 8640000000000000
                 then Some (if 0 \<le> x then \<lfloor>x\<rfloor> else \<lceil>x\<rceil>) else None
      | NegZero \<Rightarrow> Some 0
      | _ \<Rightarrow> None)"

definition getTime :: "Date \<Rightarrow> number" where
  "getTime date = (case date of Some t \<Rightarrow> Fin (of_int t) | None \<Rightarrow> NaN)"

definition getField :: "(int \<Rightarrow> int) \<Rightarrow> Date \<Rightarrow> number" where
  "getField f date = (case date of Some t \<Rightarrow> Fin (of_int (f t)) | None \<Rightarrow> NaN)"

text \<open>\<open>Date.prototype.toISOString\<close> raises a RangeError on an invalid date.\<close>

definition toISOString :: "runtime \<Rightarrow> Date \<Rightarrow> error + string" where
  "toISOString rt date =
     (case date of
        Some t \<Rightarrow> Inr (isoString rt t)
      | None \<Rightarrow> Inl (RangeError ''Invalid time value''))"

text \<open>\<open>String(n)\<close> for the numbers the engine prints: integers and NaN.\<close>

definition String_ofNumber :: "number \<Rightarrow> string" where
  "String_ofNumber n =
     (case n of
        NaN \<Rightarrow> ''NaN''
      | PosInf \<Rightarrow> ''Infinity''
      | NegInf \<Rightarrow> ''-Infinity''
      | NegZero \<Rightarrow> ''0''
      | Fin x \<Rightarrow> (if x < 0 then ''-'' else []) @ digits10 (nat \<lfloor>\<bar>x\<bar>\<rfloor>))"

text \<open>\<open>Number(text)\<close>: white space and line terminators are trimmed on both sides; the
  empty rest is 0, any other rest is read as a numeric literal.\<close>

definition strWhiteSpaceChars :: "string list" where
  "strWhiteSpaceChars =
     [[CHR 0x09], [CHR 0x0A], [CHR 0x0B], [CHR 0x0C], [CHR 0x0D], [CHR 0x20],
      [CHR 0xC2, CHR 0xA0], [CHR 0xE1, CHR 0x9A, CHR 0x80],
      [CHR 0xE2, CHR 0x80, CHR 0x80], [CHR 0xE2, CHR 0x80, CHR 0x81],
      [CHR 0xE2, CHR 0x80, CHR 0x82], [CHR 0xE2, CHR 0x80, CHR 0x83],
      [CHR 0xE2, CHR 0x80, CHR 0x84], [CHR 0xE2, CHR 0x80, CHR 0x85],
      [CHR 0xE2, CHR 0x80, CHR 0x86], [CHR 0xE2, CHR 0x80, CHR 0x87],
      [CHR 0xE2, CHR 0x80, CHR 0x88], [CHR 0xE2, CHR 0x80, CHR 0x89],
      [CHR 0xE2, CHR 0x80, CHR 0x8A], [CHR 0xE2, CHR 0x80, CHR 0xA8],
      [CHR 0xE2, CHR 0x80, CHR 0xA9], [CHR 0xE2, CHR 0x80, CHR 0xAF],
      [CHR 0xE2, CHR 0x81, CHR 0x9F], [CHR 0xE3, CHR 0x80, CHR 0x80],
      [CHR 0xEF, CHR 0xBB, CHR 0xBF]]"

function stripPrefixes :: "string list \<Rightarrow> string \<Rightarrow> string" where
  "stripPrefixes ps s =
     (case find (\<lambda>w. w \<noteq> [] \<and> take (length w) s = w) ps of
        None \<Rightarrow> s
      | Some w \<Rightarrow> stripPrefixes ps (drop (length w) s))"
  by pat_completeness auto

termination
proof (relation "measure (\<lambda>(ps, s). length s)")
  show "wf (measure (\<lambda>(ps, s). length s))" by simp
next
  fix ps :: "string list" and s w :: string
  assume "find (\<lambda>w. w \<noteq> [] \<and> take (length w) s = w) ps = Some w"
  then have w: "w \<noteq> []" and t: "take (length w) s = w"
    by (auto simp: find_Some_iff)
  from t have "length (take (length w) s) = length w" by simp
  then have "length w \<le> length s" by simp
  with w show "((ps, drop (length w) s), (ps, s)) \<in> measure (\<lambda>(ps, s). length s)"
    by (cases w) auto
qed

declare stripPrefixes.simps [simp del]

definition trim :: "string \<Rightarrow> string" where
  "trim s =
     rev (stripPrefixes (map rev strWhiteSpaceChars) (rev (stripPrefixes strWhiteSpaceChars s)))"

definition Number_ofString :: "runtime \<Rightarrow> string \<Rightarrow> number" where
  "Number_ofString rt s = (let t = trim s in if t = [] then Fin 0 else strNumericLiteral rt t)"

section \<open>The time engine (time.ts)\<close>

record TimeConversionResult =
  unixSeconds :: number
  unixMilliseconds :: number
  localDatetime :: string
  utcDatetime :: string
  timezone :: string
  isDST :: bool

definition formatLocalDatetime :: "runtime \<Rightarrow> Date \<Rightarrow> string" where
  "formatLocalDatetime rt date =
     (let year = getField (localYear rt) date;
          month = padStart 2 (CHR ''0'')
                    (String_ofNumber (num_add (getField (localMonth rt) date) (Fin 1)));
          day = padStart 2 (CHR ''0'') (String_ofNumber (getField (localDay rt) date));
          hours = padStart 2 (CHR ''0'') (String_ofNumber (getField (localHours rt) date));
          minutes = padStart 2 (CHR ''0'') (String_ofNumber (getField (localMinutes rt) date));
          seconds = padStart 2 (CHR ''0'') (String_ofNumber (getField (localSeconds rt) date))
      in String_ofNumber year @ ''-'' @ month @ ''-'' @ day @ ''T'' @ hours @ '':'' @ minutes
           @ '':'' @ seconds)"

text \<open>\<open>new Date(year, 0, 1)\<close> with a year that is NaN is an invalid date.\<close>

definition newLocalDate :: "runtime \<Rightarrow> number \<Rightarrow> int \<Rightarrow> int \<Rightarrow> Date" where
  "newLocalDate rt year monthIndex day =
     (case year of Fin y \<Rightarrow> makeLocalDate rt \<lfloor>y\<rfloor> monthIndex day | _ \<Rightarrow> None)"

definition getTimezoneInfo :: "runtime \<Rightarrow> Date \<Rightarrow> string \<times> bool" where
  "getTimezoneInfo rt date =
     (let timezone' =
            (case date of
               Some t \<Rightarrow> (case timeZoneName rt t of
                            Some v \<Rightarrow> if v = [] then ''Unknown'' else v
                          | None \<Rightarrow> ''Unknown'')
             | None \<Rightarrow> ''Unknown'');
          january = newLocalDate rt (getField (localYear rt) date) 0 1;
          july = newLocalDate rt (getField (localYear rt) date) 6 1;
          stdOffset = Math_max (getField (timezoneOffset rt) january)
                               (getField (timezoneOffset rt) july);
          isDST' = num_lt (getField (timezoneOffset rt) date) stdOffset
      in (timezone', isDST'))"

text \<open>On an invalid date everything before \<open>date.toISOString()\<close> yields NaN values and
  strings; that call then raises, and no result is returned.\<close>

definition convertDate :: "runtime \<Rightarrow> Date \<Rightarrow> error + TimeConversionResult" where
  "convertDate rt date =
     (let unixMilliseconds' = getTime date;
          unixSeconds' = Math_floor (num_div unixMilliseconds' (Fin 1000));
          localDatetime' = formatLocalDatetime rt date
      in case toISOString rt date of
           Inl e \<Rightarrow> Inl e
         | Inr utcDatetime' \<Rightarrow>
             (let (timezone', isDST') = getTimezoneInfo rt date
              in Inr \<lparr>unixSeconds = unixSeconds', unixMilliseconds = unixMilliseconds',
                      localDatetime = localDatetime', utcDatetime = utcDatetime',
                      timezone = timezone', isDST = isDST'\<rparr>))"

definition getCurrentTime :: "runtime \<Rightarrow> error + TimeConversionResult" where
  "getCurrentTime rt =
     (let now = Some (clock rt);
          unixMilliseconds' = getTime now;
          unixSeconds' = Math_floor (num_div unixMilliseconds' (Fin 1000));
          localDatetime' = formatLocalDatetime rt now
      in case toISOString rt now of
           Inl e \<Rightarrow> Inl e
         | Inr utcDatetime' \<Rightarrow>
             (let (timezone', isDST') = getTimezoneInfo rt now
              in Inr \<lparr>unixSeconds = unixSeconds', unixMilliseconds = unixMilliseconds',
                      localDatetime = localDatetime', utcDatetime = utcDatetime',
                      timezone = timezone', isDST = isDST'\<rparr>))"

definition fromUnixSeconds :: "runtime \<Rightarrow> number \<Rightarrow> error + TimeConversionResult" where
  "fromUnixSeconds rt seconds = (let date = newDate (num_mul seconds (Fin 1000)) in convertDate rt date)"

definition fromUnixMilliseconds :: "runtime \<Rightarrow> number \<Rightarrow> error + TimeConversionResult" where
  "fromUnixMilliseconds rt milliseconds = (let date = newDate milliseconds in convertDate rt date)"

definition fromLocalDatetime :: "runtime \<Rightarrow> string \<Rightarrow> error + TimeConversionResult" where
  "fromLocalDatetime rt datetimeString =
     (let date = parseDate rt datetimeString in convertDate rt date)"

definition fromUTCDatetime :: "runtime \<Rightarrow> string \<Rightarrow> error + TimeConversionResult" where
  "fromUTCDatetime rt datetimeString =
     (let date = parseDate rt datetimeString in convertDate rt date)"

definition isValidUnixSeconds :: "runtime \<Rightarrow> string \<Rightarrow> bool" where
  "isValidUnixSeconds rt value' =
     (let num = Number_ofString rt value'
      in if isNaN num \<or> \<not> isFinite num then False
         else num_ge num (Fin 0) \<and> num_le num (Fin 4102444800))"

definition isValidUnixMilliseconds :: "runtime \<Rightarrow> string \<Rightarrow> bool" where
  "isValidUnixMilliseconds rt value' =
     (let num = Number_ofString rt value'
      in if isNaN num \<or> \<not> isFinite num then False
         else num_ge num (Fin 0) \<and> num_le num (Fin 4102444800000))"

definition isValidDatetime :: "runtime \<Rightarrow> string \<Rightarrow> bool" where
  "isValidDatetime rt value' = (let date = parseDate rt value' in \<not> isNaN (getTime date))"

section \<open>Date arithmetic (date-converter-form.tsx)\<close>








section \<open>Number relations (numbers-converter-form.tsx)\<close>


record PercentFormData =
  base :: string
  percent :: string

definition handlePercent :: "runtime \<Rightarrow> PercentFormData \<Rightarrow> number" where
  "handlePercent rt data =
     (let base' = parseFloat rt (base data);
          percent' = parseFloat rt (percent data);
          result = num_mul base' (num_add (Fin 1) (num_div percent' (Fin 100)))
      in result)"

record CompareResult =
  diff :: number
  percent :: number


section \<open>A runtime in the UTC zone\<close>

text \<open>
  One instance of the runtime, on which the engines can be evaluated: the zone is UTC
  (offset 0, name \<open>UTC\<close>, no daylight saving time), the calendar is the proleptic
  Gregorian one of ECMAScript, and the clock stands at the epoch. Its parsers read the
  plain forms only: \<open>YYYY-MM-DDTHH:mm:ss.sssZ\<close> for a date, an unsigned digit string
  for a numeric literal, an optionally negated digit string for \<open>parseFloat\<close>; any
  other text is an invalid date or NaN.
\<close>

definition civilFromDays :: "int \<Rightarrow> int \<times> int \<times> int" where
  "civilFromDays z =
     (let z' = z + 719468;
          era = z' div 146097;
          doe = z' mod 146097;
          yoe = (doe - doe div 1460 + doe div 36524 - doe div 146096) div 365;
          doy = doe - (365 * yoe + yoe div 4 - yoe div 100);
          mp = (5 * doy + 2) div 153;
          d = doy - (153 * mp + 2) div 5 + 1;
          m = (if mp < 10 then mp + 3 else mp - 9);
          y = yoe + era * 400
      in (if m \<le> 2 then y + 1 else y, m, d))"

definition daysFromCivil :: "int \<Rightarrow> int \<Rightarrow> int \<Rightarrow> int" where
  "daysFromCivil y m d =
     (let y' = (if m \<le> 2 then y - 1 else y);
          era = y' div 400;
          yoe = y' - era * 400;
          doy = (153 * ((m + 9) mod 12) + 2) div 5 + d - 1;
          doe = yoe * 365 + yoe div 4 - yoe div 100 + doy
      in era * 146097 + doe - 719468)"

definition showInt :: "nat \<Rightarrow> int \<Rightarrow> string" where
  "showInt width i = padStart width (CHR ''0'') (digits10 (nat \<bar>i\<bar>))"

definition utcIsoString :: "int \<Rightarrow> string" where
  "utcIsoString t =
     (let (y, m, d) = civilFromDays (t div 86400000);
          r = t mod 86400000;
          year = (if 0 \<le> y \<and> y \<le> 9999 then showInt 4 y
                  else (if y < 0 then ''-'' else ''+'') @ showInt 6 y)
      in year @ ''-'' @ showInt 2 m @ ''-'' @ showInt 2 d @ ''T'' @ showInt 2 (r div 3600000)
           @ '':'' @ showInt 2 (r div 60000 mod 60) @ '':'' @ showInt 2 (r div 1000 mod 60)
           @ ''.'' @ showInt 3 (r mod 1000) @ ''Z'')"

definition timeClip :: "int \<Rightarrow> Date" where
  "timeClip t = (if \<bar>t\<bar> \<le> 8640000000000000 then Some t else None)"

definition utcMakeDate :: "int \<Rightarrow> int \<Rightarrow> int \<Rightarrow> Date" where
  "utcMakeDate year monthIndex day =
     (let y = (if 0 \<le> year \<and> year \<le> 99 then 1900 + year else year)
      in timeClip ((daysFromCivil (y + monthIndex div 12) (monthIndex mod 12 + 1) 1 + day - 1)
                     * 86400000))"

definition utcWithDay :: "int \<Rightarrow> number \<Rightarrow> Date" where
  "utcWithDay t n =
     (if isFinite n then
        (let (y, m, d) = civilFromDays (t div 86400000);
             x = num_val n;
             dt = (if 0 \<le> x then \<lfloor>x\<rfloor> else \<lceil>x\<rceil>)
         in timeClip ((daysFromCivil y m 1 + dt - 1) * 86400000 + t mod 86400000))
      else None)"

definition isDigit :: "char \<Rightarrow> bool" where
  "isDigit c = (c \<in> set ''0123456789'')"

definition readDigits :: "string \<Rightarrow> int option" where
  "readDigits s =
     (if s \<noteq> [] \<and> list_all isDigit s
      then Some (foldl (\<lambda>a c. 10 * a + (int (of_char c) - 48)) 0 s) else None)"

definition utcParseDate :: "string \<Rightarrow> Date" where
  "utcParseDate s =
     (if length s = 24 \<and> map (\<lambda>i. s ! i) [4, 7, 10, 13, 16, 19, 23] = ''--T::.Z'' then
        (case map (\<lambda>(i, n). readDigits (take n (drop i s)))
                [(0, 4), (5, 2), (8, 2), (11, 2), (14, 2), (17, 2), (20, 3)] of
           [Some y, Some m, Some d, Some h, Some mi, Some sec, Some ms] \<Rightarrow>
             if civilFromDays (daysFromCivil y m d) = (y, m, d) \<and> 1 \<le> m \<and> m \<le> 12
                \<and> h \<le> 23 \<and> mi \<le> 59 \<and> sec \<le> 59
             then Some (daysFromCivil y m d * 86400000 + h * 3600000 + mi * 60000
                          + sec * 1000 + ms)
             else None
         | _ \<Rightarrow> None)
      else None)"

definition utcRuntime :: runtime where
  "utcRuntime =
     \<lparr>parseDate = utcParseDate,
      localYear = (\<lambda>t. fst (civilFromDays (t div 86400000))),
      localMonth = (\<lambda>t. fst (snd (civilFromDays (t div 86400000))) - 1),
      localDay = (\<lambda>t. snd (snd (civilFromDays (t div 86400000)))),
      localHours = (\<lambda>t. t mod 86400000 div 3600000),
      localMinutes = (\<lambda>t. t div 60000 mod 60),
      localSeconds = (\<lambda>t. t div 1000 mod 60),
      timezoneOffset = (\<lambda>t. 0),
      timeZoneName = (\<lambda>t. Some ''UTC''),
      makeLocalDate = utcMakeDate,
      withLocalDay = utcWithDay,
      isoString = utcIsoString,
      strNumericLiteral = (\<lambda>s. case readDigits s of Some n \<Rightarrow> Fin (of_int n) | None \<Rightarrow> NaN),
      parseFloat = (\<lambda>s. case s of
                       [] \<Rightarrow> NaN
                     | c # cs \<Rightarrow>
                         (case readDigits (if c = CHR ''-'' then cs else s) of
                            Some n \<Rightarrow> if c = CHR ''-'' then num_neg (Fin (of_int n))
                                      else Fin (of_int n)
                          | None \<Rightarrow> NaN)),
      clock = 0\<rparr>"

section \<open>Grouping, as the specification words it\<close>



section \<open>Properties of the linear engines\<close>

lemma exclude_source_length:
  "distinct (map id' us) \<Longrightarrow> k \<in> set (map id' us) \<Longrightarrow>
   length (filter (\<lambda>u. id' u \<noteq> k) us) = length us - 1"
proof (induction us)
  case Nil
  then show ?case by simp
next
  case (Cons a us)
  show ?case
  proof (cases "id' a = k")
    case True
    with Cons.prems have "k \<notin> id' ` set us" by simp
    then have "\<forall>u \<in> set us. id' u \<noteq> k" by blast
    then have "filter (\<lambda>u. id' u \<noteq> k) us = us" by (simp add: filter_id_conv)
    with True show ?thesis by simp
  next
    case False
    with Cons.prems have k: "k \<in> set (map id' us)" and d: "distinct (map id' us)" by auto
    from k have "us \<noteq> []" by auto
    then have "0 < length us" by simp
    with Cons.IH [OF d k] False show ?thesis by simp
  qed
qed

lemma getProperty_own:
  "k \<in> set (map fst tbl) \<Longrightarrow> \<exists>u. getProperty tbl k = Own u"
proof -
  assume "k \<in> set (map fst tbl)"
  then have "map_of tbl k \<noteq> None" by (simp add: map_of_eq_None_iff)
  then show ?thesis by (auto simp: getProperty_def)
qed

lemma toResult_unitId: "unitId (toResult b u) = id' u"
  by (simp add: toResult_def)

lemma linear_results:
  assumes keys: "map fst tbl = map id' (Object_values tbl)"
    and dist: "distinct (map fst tbl)"
    and k: "k \<in> set (map fst tbl)"
  shows "length (map (toResult b) (filter (\<lambda>u. id' u \<noteq> k) (Object_values tbl)))
           = length (Object_values tbl) - 1
         \<and> (\<forall>r \<in> set (map (toResult b) (filter (\<lambda>u. id' u \<noteq> k) (Object_values tbl))).
              unitId r \<noteq> k)"
proof -
  have "length (filter (\<lambda>u. id' u \<noteq> k) (Object_values tbl)) = length (Object_values tbl) - 1"
    using exclude_source_length [of "Object_values tbl" k] keys dist k by simp
  then show ?thesis by (auto simp: toResult_unitId)
qed

lemma lengthUnits_keys:
  "map fst lengthUnits = map id' (Object_values lengthUnits)" "distinct (map fst lengthUnits)"
  by (simp_all add: lengthUnits_def Object_values_def mkUnit_def)

lemma volumeUnits_keys:
  "map fst volumeUnits = map id' (Object_values volumeUnits)" "distinct (map fst volumeUnits)"
  by (simp_all add: volumeUnits_def Object_values_def mkUnit_def)

lemma weightUnits_keys:
  "map fst weightUnits = map id' (Object_values weightUnits)" "distinct (map fst weightUnits)"
  by (simp_all add: weightUnits_def Object_values_def mkUnit_def)

text \<open>
  C1. For every value and every unit id that is a key of the table of a linear category
  (length, volume, weight), the conversion returns a list of exactly (number of units
  of the category) - 1 results, and no result has the source unit's id.
\<close>

theorem convert_completeness:
  "(idL \<in> set (map fst lengthUnits) \<longrightarrow>
      (\<exists>rs. convertLength v idL = Inr rs
         \<and> length rs = length (Object_values lengthUnits) - 1
         \<and> (\<forall>r \<in> set rs. unitId r \<noteq> idL)))
   \<and> (idV \<in> set (map fst volumeUnits) \<longrightarrow>
      (\<exists>rs. convertVolume v idV = Inr rs
         \<and> length rs = length (Object_values volumeUnits) - 1
         \<and> (\<forall>r \<in> set rs. unitId r \<noteq> idV)))
   \<and> (idW \<in> set (map fst weightUnits) \<longrightarrow>
      (\<exists>rs. convertWeight v idW = Inr rs
         \<and> length rs = length (Object_values weightUnits) - 1
         \<and> (\<forall>r \<in> set rs. unitId r \<noteq> idW)))"
proof (intro conjI impI)
  assume k: "idL \<in> set (map fst lengthUnits)"
  from getProperty_own [OF k] obtain u where u: "getProperty lengthUnits idL = Own u" ..
  show "\<exists>rs. convertLength v idL = Inr rs
         \<and> length rs = length (Object_values lengthUnits) - 1
         \<and> (\<forall>r \<in> set rs. unitId r \<noteq> idL)"
    using linear_results [OF lengthUnits_keys k, of "toBase u v"] u
    by (simp add: convertLength_def)
next
  assume k: "idV \<in> set (map fst volumeUnits)"
  from getProperty_own [OF k] obtain u where u: "getProperty volumeUnits idV = Own u" ..
  show "\<exists>rs. convertVolume v idV = Inr rs
         \<and> length rs = length (Object_values volumeUnits) - 1
         \<and> (\<forall>r \<in> set rs. unitId r \<noteq> idV)"
    using linear_results [OF volumeUnits_keys k, of "toBase u v"] u
    by (simp add: convertVolume_def)
next
  assume k: "idW \<in> set (map fst weightUnits)"
  from getProperty_own [OF k] obtain u where u: "getProperty weightUnits idW = Own u" ..
  show "\<exists>rs. convertWeight v idW = Inr rs
         \<and> length rs = length (Object_values weightUnits) - 1
         \<and> (\<forall>r \<in> set rs. unitId r \<noteq> idW)"
    using linear_results [OF weightUnits_keys k, of "toBase u v"] u
    by (simp add: convertWeight_def)
qed


theorem convert_completeness_witness:
  "(\<exists>rs. convertLength (Fin 1) ''meter'' = Inr rs \<and> length rs = 7
      \<and> ''meter'' \<notin> set (map unitId rs))
   \<and> (\<exists>rs. convertVolume (Fin 1) ''liter'' = Inr rs \<and> length rs = 6
      \<and> ''liter'' \<notin> set (map unitId rs))
   \<and> (\<exists>rs. convertWeight (Fin 1) ''kilogram'' = Inr rs \<and> length rs = 6
      \<and> ''kilogram'' \<notin> set (map unitId rs))"
proof -
  have l: "''meter'' \<in> set (map fst lengthUnits)" by (simp add: lengthUnits_def)
  have v: "''liter'' \<in> set (map fst volumeUnits)" by (simp add: volumeUnits_def)
  have w: "''kilogram'' \<in> set (map fst weightUnits)" by (simp add: weightUnits_def)
  have n: "length (Object_values lengthUnits) = 8" "length (Object_values volumeUnits) = 7"
    "length (Object_values weightUnits) = 7"
    by (simp_all add: lengthUnits_def volumeUnits_def weightUnits_def Object_values_def)
  from convert_completeness [of "''meter''" "Fin 1" "''liter''" "''kilogram''"] l v w n
  show ?thesis by auto
qed

section \<open>Unknown unit ids\<close>

lemma getProperty_undefined:
  "k \<notin> set (map fst tbl) \<Longrightarrow> k \<notin> set objectPrototypeKeys \<Longrightarrow> getProperty tbl k = Undefined"
proof -
  assume a: "k \<notin> set (map fst tbl)" and b: "k \<notin> set objectPrototypeKeys"
  from a have "map_of tbl k = None" by (simp add: map_of_eq_None_iff)
  with b show ?thesis by (simp add: getProperty_def)
qed

lemma unknown_unit_regular:
  assumes "fromUnitId \<notin> set objectPrototypeKeys"
  shows "fromUnitId \<notin> set (map fst lengthUnits) \<Longrightarrow>
           convertLength v fromUnitId = Inl (Error (''Invalid unit ID: '' @ fromUnitId))"
    and "fromUnitId \<notin> set (map fst volumeUnits) \<Longrightarrow>
           convertVolume v fromUnitId = Inl (Error (''Invalid unit ID: '' @ fromUnitId))"
    and "fromUnitId \<notin> set (map fst weightUnits) \<Longrightarrow>
           convertWeight v fromUnitId = Inl (Error (''Invalid unit ID: '' @ fromUnitId))"
    and "fromUnitId \<notin> set (map fst temperatureUnits) \<Longrightarrow>
           convertTemperature v fromUnitId = Inl (Error (''Invalid unit ID: '' @ fromUnitId))"
  using assms
  by (simp_all add: convertLength_def convertVolume_def convertWeight_def convertTemperature_def
      getProperty_undefined)

lemma unknown_unit_temperature_inherited:
  "convertTemperature v ''constructor''
     = Inl (Error ''Unsupported temperature unit: constructor'')"
  by (simp add: convertTemperature_def getProperty_def temperatureUnits_def
      objectPrototypeKeys_def)

text \<open>
  C5. An id that is no key of the table but names a property inherited from
  \<open>Object.prototype\<close> passes the guard of the linear engines: the conversion of 1 from
  \<open>constructor\<close> fails in the call of \<open>toBase\<close> with a TypeError whose message does
  not name the id, not with the error \<open>Invalid unit ID: constructor\<close>.
\<close>

theorem unknown_unit_inherited_key:
  "''constructor'' \<notin> set (map fst lengthUnits)
   \<and> convertLength (Fin 1) ''constructor'' = Inl (TypeError ''fromUnit.toBase is not a function'')
   \<and> ''constructor'' \<notin> set (map fst volumeUnits)
   \<and> convertVolume (Fin 1) ''constructor'' = Inl (TypeError ''fromUnit.toBase is not a function'')
   \<and> ''constructor'' \<notin> set (map fst weightUnits)
   \<and> convertWeight (Fin 1) ''constructor'' = Inl (TypeError ''fromUnit.toBase is not a function'')"
  by (simp add: convertLength_def convertVolume_def convertWeight_def getProperty_def
      lengthUnits_def volumeUnits_def weightUnits_def objectPrototypeKeys_def)

section \<open>The temperature formulas\<close>








section \<open>The time engine\<close>

text \<open>
  C6. For every string that the runtime does not parse to a valid instant,
  \<open>fromLocalDatetime\<close> and \<open>fromUTCDatetime\<close> fail with the error for an invalid time
  value and return no result.
\<close>

theorem invalid_datetime_fails:
  "parseDate rt datetimeString = None \<Longrightarrow>
     fromLocalDatetime rt datetimeString = Inl (RangeError ''Invalid time value'')
     \<and> fromUTCDatetime rt datetimeString = Inl (RangeError ''Invalid time value'')"
  by (simp add: fromLocalDatetime_def fromUTCDatetime_def convertDate_def toISOString_def)

lemma utcParseDate_garbage: "utcParseDate ''not-a-date'' = None"
  by (simp add: utcParseDate_def)

theorem invalid_datetime_fails_witness:
  "parseDate utcRuntime ''not-a-date'' = None
   \<and> fromLocalDatetime utcRuntime ''not-a-date'' = Inl (RangeError ''Invalid time value'')
   \<and> fromUTCDatetime utcRuntime ''not-a-date'' = Inl (RangeError ''Invalid time value'')"
proof -
  have h: "parseDate utcRuntime ''not-a-date'' = None"
    by (simp add: utcRuntime_def utcParseDate_garbage)
  from invalid_datetime_fails [OF h] h show ?thesis by simp
qed

lemma convertDate_floor:
  "convertDate rt date = Inr r \<Longrightarrow>
     unixSeconds r = Math_floor (num_div (unixMilliseconds r) (Fin 1000))"
  by (auto simp: convertDate_def Let_def split: sum.splits prod.splits)

lemma getCurrentTime_floor:
  "getCurrentTime rt = Inr r \<Longrightarrow>
     unixSeconds r = Math_floor (num_div (unixMilliseconds r) (Fin 1000))"
  by (auto simp: getCurrentTime_def Let_def split: sum.splits prod.splits)

lemma convertDate_valid:
  "\<exists>r. convertDate rt (Some t) = Inr r \<and> unixMilliseconds r = Fin (of_int t)
       \<and> unixSeconds r = Fin (of_int \<lfloor>of_int t / (1000::real)\<rfloor>)"
  by (auto simp: convertDate_def toISOString_def getTime_def num_div_def signedZero_def
      Let_def split: prod.splits)

lemma newDate_int:
  "\<bar>t\<bar> \<le> 8640000000000000 \<Longrightarrow> newDate (Fin (of_int t)) = Some t"
proof -
  assume a: "\<bar>t\<bar> \<le> 8640000000000000"
  then have "\<bar>real_of_int t\<bar> \<le> 8640000000000000" by linarith
  then show ?thesis by (simp add: newDate_def)
qed

lemma mul_thousand: "num_mul (Fin (of_int s)) (Fin 1000) = Fin (of_int (s * 1000))"
  by (simp add: num_mul_def signedZero_def)

text \<open>
  C7. Every result that an entry point of the time engine returns has
  unixSeconds = floor(unixMilliseconds / 1000). For every integer s whose instant
  s * 1000 is in the range of a date, \<open>fromUnixSeconds\<close> returns unixMilliseconds =
  s * 1000 and unixSeconds = s; for every integer ms in that range,
  \<open>fromUnixMilliseconds\<close> returns unixMilliseconds = ms and unixSeconds =
  floor(ms / 1000).
\<close>

theorem unix_seconds_floor:
  "((fromUnixSeconds rt x = Inr r \<or> fromUnixMilliseconds rt x = Inr r
       \<or> fromLocalDatetime rt text = Inr r \<or> fromUTCDatetime rt text = Inr r
       \<or> getCurrentTime rt = Inr r) \<longrightarrow>
      unixSeconds r = Math_floor (num_div (unixMilliseconds r) (Fin 1000)))
   \<and> (\<bar>s * 1000\<bar> \<le> 8640000000000000 \<longrightarrow>
        (\<exists>r'. fromUnixSeconds rt (Fin (of_int s)) = Inr r'
           \<and> unixMilliseconds r' = Fin (of_int (s * 1000))
           \<and> unixSeconds r' = Fin (of_int s)))
   \<and> (\<bar>ms\<bar> \<le> 8640000000000000 \<longrightarrow>
        (\<exists>r'. fromUnixMilliseconds rt (Fin (of_int ms)) = Inr r'
           \<and> unixMilliseconds r' = Fin (of_int ms)
           \<and> unixSeconds r' = Fin (of_int \<lfloor>of_int ms / (1000::real)\<rfloor>)))"
proof (intro conjI impI)
  assume "fromUnixSeconds rt x = Inr r \<or> fromUnixMilliseconds rt x = Inr r
       \<or> fromLocalDatetime rt text = Inr r \<or> fromUTCDatetime rt text = Inr r
       \<or> getCurrentTime rt = Inr r"
  then show "unixSeconds r = Math_floor (num_div (unixMilliseconds r) (Fin 1000))"
    by (auto simp: fromUnixSeconds_def fromUnixMilliseconds_def fromLocalDatetime_def
        fromUTCDatetime_def dest: convertDate_floor getCurrentTime_floor)
next
  assume a: "\<bar>s * 1000\<bar> \<le> 8640000000000000"
  have "\<lfloor>real_of_int (s * 1000) / 1000\<rfloor> = s" by simp
  with convertDate_valid [of rt "s * 1000"] newDate_int [OF a]
  show "\<exists>r'. fromUnixSeconds rt (Fin (of_int s)) = Inr r'
           \<and> unixMilliseconds r' = Fin (of_int (s * 1000))
           \<and> unixSeconds r' = Fin (of_int s)"
    by (simp add: fromUnixSeconds_def mul_thousand)
next
  assume a: "\<bar>ms\<bar> \<le> 8640000000000000"
  with convertDate_valid [of rt ms] newDate_int [OF a]
  show "\<exists>r'. fromUnixMilliseconds rt (Fin (of_int ms)) = Inr r'
           \<and> unixMilliseconds r' = Fin (of_int ms)
           \<and> unixSeconds r' = Fin (of_int \<lfloor>of_int ms / (1000::real)\<rfloor>)"
    by (simp add: fromUnixMilliseconds_def)
qed

lemma epoch_result:
  "fromUnixSeconds utcRuntime (Fin 1640995200) =
     Inr \<lparr>unixSeconds = Fin 1640995200, unixMilliseconds = Fin 1640995200000,
          localDatetime = ''2022-01-01T00:00:00'', utcDatetime = ''2022-01-01T00:00:00.000Z'',
          timezone = ''UTC'', isDST = False\<rparr>"
  by code_simp

theorem unix_seconds_floor_witness:
  "fromUnixSeconds utcRuntime (Fin 1640995200) =
     Inr \<lparr>unixSeconds = Fin 1640995200, unixMilliseconds = Fin 1640995200000,
          localDatetime = ''2022-01-01T00:00:00'', utcDatetime = ''2022-01-01T00:00:00.000Z'',
          timezone = ''UTC'', isDST = False\<rparr>
   \<and> Fin 1640995200 = Math_floor (num_div (Fin 1640995200000) (Fin 1000))
   \<and> (\<exists>r'. fromUnixSeconds utcRuntime (Fin 1640995200) = Inr r'
         \<and> unixMilliseconds r' = Fin 1640995200000 \<and> unixSeconds r' = Fin 1640995200)
   \<and> (\<exists>r'. fromUnixMilliseconds utcRuntime (Fin 1640995200999) = Inr r'
         \<and> unixMilliseconds r' = Fin 1640995200999 \<and> unixSeconds r' = Fin 1640995200)"
proof -
  note t = unix_seconds_floor [of utcRuntime "Fin 1640995200"
      "\<lparr>unixSeconds = Fin 1640995200, unixMilliseconds = Fin 1640995200000,
          localDatetime = ''2022-01-01T00:00:00'', utcDatetime = ''2022-01-01T00:00:00.000Z'',
          timezone = ''UTC'', isDST = False\<rparr>" "[]" 1640995200 1640995200999]
  have a: "Fin 1640995200 = Math_floor (num_div (Fin 1640995200000) (Fin 1000))"
    using conjunct1 [OF t] epoch_result by simp
  have b: "\<exists>r'. fromUnixSeconds utcRuntime (Fin 1640995200) = Inr r'
         \<and> unixMilliseconds r' = Fin 1640995200000 \<and> unixSeconds r' = Fin 1640995200"
    using conjunct1 [OF conjunct2 [OF t]] by simp
  have f: "\<lfloor>real_of_int 1640995200999 / 1000\<rfloor> = 1640995200" by simp
  have c: "\<exists>r'. fromUnixMilliseconds utcRuntime (Fin 1640995200999) = Inr r'
         \<and> unixMilliseconds r' = Fin 1640995200999 \<and> unixSeconds r' = Fin 1640995200"
    using conjunct2 [OF conjunct2 [OF t]] f by simp
  from epoch_result a b c show ?thesis by blast
qed

lemma stripPrefixes_Nil: "stripPrefixes ps [] = []"
proof -
  have "find (\<lambda>w. w \<noteq> [] \<and> take (length w) [] = w) ps = None"
    by (auto simp: find_None_iff)
  then show ?thesis by (simp add: stripPrefixes.simps)
qed

lemma stripPrefixes_concat:
  assumes pf: "\<And>p q. p \<in> set ps \<Longrightarrow> q \<in> set ps \<Longrightarrow> take (length p) q = p \<Longrightarrow> p = q"
    and ne: "[] \<notin> set ps"
  shows "set ws \<subseteq> set ps \<Longrightarrow> stripPrefixes ps (concat ws) = []"
proof (induction ws)
  case Nil
  show ?case by (simp add: stripPrefixes_Nil)
next
  case (Cons w ws)
  let ?s = "w @ concat ws"
  let ?P = "\<lambda>p. p \<noteq> [] \<and> take (length p) ?s = p"
  from Cons.prems have w: "w \<in> set ps" by simp
  with ne have "?P w" by auto
  with w have "find ?P ps \<noteq> None" by (auto simp: find_None_iff)
  then obtain p where f: "find ?P ps = Some p" by auto
  then have p: "p \<in> set ps" "take (length p) ?s = p"
    by (auto simp: find_Some_iff)
  have "p = w"
  proof (cases "length p \<le> length w")
    case True
    with p(2) have "take (length p) w = p" by simp
    with pf [OF p(1) w] show ?thesis by simp
  next
    case False
    then have "take (length w) (take (length p) ?s) = w" by (simp add: min_def)
    with p(2) have "take (length w) p = w" by simp
    with pf [OF w p(1)] show ?thesis by simp
  qed
  with f have "stripPrefixes ps ?s = stripPrefixes ps (concat ws)"
    by (subst stripPrefixes.simps) simp
  with Cons show ?case by simp
qed

lemma strWhiteSpaceChars_pairs:
  "list_all (\<lambda>p. list_all (\<lambda>q. take (length p) q = p \<longrightarrow> p = q) strWhiteSpaceChars)
     strWhiteSpaceChars"
  by code_simp

lemma strWhiteSpaceChars_prefix_free:
  "p \<in> set strWhiteSpaceChars \<Longrightarrow> q \<in> set strWhiteSpaceChars \<Longrightarrow> take (length p) q = p \<Longrightarrow> p = q"
  using strWhiteSpaceChars_pairs unfolding list_all_iff by blast

lemma trim_white:
  "set ws \<subseteq> set strWhiteSpaceChars \<Longrightarrow> trim (concat ws) = []"
proof -
  assume a: "set ws \<subseteq> set strWhiteSpaceChars"
  have "[] \<notin> set strWhiteSpaceChars" by (simp add: strWhiteSpaceChars_def)
  with stripPrefixes_concat [of strWhiteSpaceChars ws] strWhiteSpaceChars_prefix_free a
  have "stripPrefixes strWhiteSpaceChars (concat ws) = []" by blast
  then show ?thesis by (simp add: trim_def stripPrefixes_Nil)
qed

lemma valid_of_blank:
  "trim s = [] \<Longrightarrow> isValidUnixSeconds rt s \<and> isValidUnixMilliseconds rt s"
  by (simp add: isValidUnixSeconds_def isValidUnixMilliseconds_def Number_ofString_def
      num_ge_def num_le_def)

text \<open>
  C10. The empty string, and every string made of white space only, is accepted by
  \<open>isValidUnixSeconds\<close> and \<open>isValidUnixMilliseconds\<close>: its numeric value is 0.
\<close>

theorem empty_text_is_valid_timestamp:
  "isValidUnixSeconds rt [] \<and> isValidUnixMilliseconds rt []
   \<and> (set ws \<subseteq> set strWhiteSpaceChars \<longrightarrow>
        isValidUnixSeconds rt (concat ws) \<and> isValidUnixMilliseconds rt (concat ws))"
proof -
  have "trim [] = []" using trim_white [of "[]"] by simp
  then show ?thesis using valid_of_blank trim_white by blast
qed

theorem empty_text_is_valid_timestamp_witness:
  "isValidUnixSeconds utcRuntime '' '' \<and> isValidUnixMilliseconds utcRuntime '' ''
   \<and> isValidUnixSeconds utcRuntime [CHR 0x20, CHR 0x09, CHR 0xC2, CHR 0xA0]
   \<and> isValidUnixMilliseconds utcRuntime [CHR 0x20, CHR 0x09, CHR 0xC2, CHR 0xA0]"
proof -
  have s: "set [[CHR 0x20]] \<subseteq> set strWhiteSpaceChars"
    "set [[CHR 0x20], [CHR 0x09], [CHR 0xC2, CHR 0xA0]] \<subseteq> set strWhiteSpaceChars"
    by (simp_all add: strWhiteSpaceChars_def)
  from empty_text_is_valid_timestamp [of utcRuntime "[[CHR 0x20]]"]
    empty_text_is_valid_timestamp [of utcRuntime "[[CHR 0x20], [CHR 0x09], [CHR 0xC2, CHR 0xA0]]"]
    s show ?thesis by simp
qed

section \<open>Number relations\<close>







section \<open>Date arithmetic\<close>







section \<open>The numeric formatter\<close>




























end
